theory Spec2Isabelle
  imports Complex_Main
begin

section \<open>The scene graph\<close>

text \<open>
  A three.js object as the components use it: its name, whether it is a mesh, the opacity
  of its material, its visibility flag and the \<open>userData.scrollOpacity\<close> slot that the
  lightning bolts read. Every mesh has a material of its own: the layout effect of
  \<open>HammerModel\<close> gives each mesh it handles a new \<open>MeshStandardMaterial\<close>. JavaScript
  numbers are modelled as real numbers: the arithmetic of the handlers is read exactly,
  without the rounding of IEEE doubles.
\<close>

record object3d_props =
  name :: string
  isMesh :: bool
  opacity :: real
  visible :: bool
  scrollOpacity :: "real option"

datatype object3d = Object3D object3d_props "object3d list"

text \<open>
  \<open>Object3D.traverse(callback)\<close>: the callback runs on the object, then on every
  descendant. The callbacks of this repository only write fields of the object they are
  given.
\<close>

fun traverse :: "(object3d_props \<Rightarrow> object3d_props) \<Rightarrow> object3d \<Rightarrow> object3d" where
  "traverse callback (Object3D p cs) = Object3D (callback p) (map (traverse callback) cs)"

text \<open>The material opacities of the meshes of a graph, in traversal order.\<close>

fun mesh_opacities :: "object3d \<Rightarrow> real list" where
  "mesh_opacities (Object3D p cs) =
     (if isMesh p then [opacity p] else []) @ concat (map mesh_opacities cs)"

text \<open>
  The group that \<open>HammerModel\<close> renders (\<open>meshRef.current\<close>): its transform, and its two
  children, the loaded glTF scene and the \<open>Lightning\<close> group.
\<close>

record group3d =
  position_x :: real
  position_y :: real
  position_z :: real
  scale :: real
  rotation_x :: real
  rotation_y :: real
  rotation_z :: real
  scene :: object3d
  lightning :: object3d

section \<open>HammerModel: the scroll handler (HammerScene.tsx, lines 140-185)\<close>

definition setMeshOpacity :: "real \<Rightarrow> object3d_props \<Rightarrow> object3d_props" where
  "setMeshOpacity progress child =
     (if isMesh child then child\<lparr>opacity := max 0 (1 - progress * 1.5)\<rparr> else child)"

definition setBoltScrollOpacity :: "real \<Rightarrow> object3d_props \<Rightarrow> object3d_props" where
  "setBoltScrollOpacity progress child =
     (if name child = ''lightningBolt''
      then child\<lparr>scrollOpacity := Some (max 0 (1 - progress * 1.5))\<rparr> else child)"

text \<open>
  \<open>onUpdate(self)\<close> with \<open>progress = self.progress\<close>. \<open>el.traverse\<close> walks the group,
  hence both children; the group itself is neither a mesh nor named \<open>lightningBolt\<close>.
\<close>

definition onUpdate :: "bool \<Rightarrow> real \<Rightarrow> group3d \<Rightarrow> group3d" where
  "onUpdate isMobile progress el =
     (let startY = (if isMobile then - 1.5 else - 0.5);
          el1 = el\<lparr>position_y := startY - progress * 2.5\<rparr>;
          baseScale = (if isMobile then 0.55 else 0.8);
          targetScale = baseScale * (1 - progress * 0.1);
          el2 = el1\<lparr>scale := targetScale\<rparr>;
          el3 = el2\<lparr>scene := traverse (setMeshOpacity progress) (scene el2)\<rparr>
      in el3\<lparr>scene := traverse (setBoltScrollOpacity progress) (scene el3),
              lightning := traverse (setBoltScrollOpacity progress) (lightning el3)\<rparr>)"

section \<open>HammerModel: the frame handler (HammerScene.tsx, lines 121-133)\<close>

text \<open>\<open>THREE.MathUtils.lerp(x, y, t)\<close>.\<close>

definition lerp :: "real \<Rightarrow> real \<Rightarrow> real \<Rightarrow> real" where
  "lerp x y t = (1 - t) * x + t * y"

text \<open>
  The \<open>useFrame\<close> callback: \<open>hovered\<close> is the component's hover state,
  \<open>elapsedTime\<close> is \<open>state.clock.elapsedTime\<close>. Nothing happens while the ref is empty.
\<close>

definition useFrame_cb :: "bool \<Rightarrow> real \<Rightarrow> real \<Rightarrow> group3d option \<Rightarrow> group3d option" where
  "useFrame_cb hovered elapsedTime delta meshRef =
     (case meshRef of
        None \<Rightarrow> None
      | Some el \<Rightarrow>
          (let el1 = el\<lparr>rotation_y := rotation_y el + delta * 0.15\<rparr>;
               targetZ = (if hovered then sin (elapsedTime * 2) * 0.02 else 0);
               targetX = (if hovered then sin (elapsedTime * 1.5) * 0.01 else 0);
               el2 = el1\<lparr>rotation_z := lerp (rotation_z el1) targetZ 0.05\<rparr>
           in Some (el2\<lparr>rotation_x := lerp (rotation_x el2) targetX 0.05\<rparr>)))"

text \<open>
  The group as the JSX creates it: \<open>position\<close> and \<open>scale\<close> by layout mode,
  \<open>rotation = [0.2, -0.5, 0]\<close>.
\<close>

definition HammerModel_group :: "bool \<Rightarrow> object3d \<Rightarrow> object3d \<Rightarrow> group3d" where
  "HammerModel_group isMobile sc li =
     \<lparr>position_x = (if isMobile then 0 else 2.2),
      position_y = (if isMobile then - 1.5 else - 0.5),
      position_z = 0,
      scale = (if isMobile then 0.55 else 0.8),
      rotation_x = 0.2, rotation_y = - 0.5, rotation_z = 0,
      scene = sc, lightning = li\<rparr>"

text \<open>
  What reaches the group during its life: scroll updates and rendered frames, in any
  order.
\<close>

datatype event = Scroll real | Frame bool real real

fun handle :: "bool \<Rightarrow> event \<Rightarrow> group3d \<Rightarrow> group3d" where
  "handle isMobile (Scroll progress) el = onUpdate isMobile progress el"
| "handle isMobile (Frame hovered elapsedTime delta) el =
     (case useFrame_cb hovered elapsedTime delta (Some el) of Some el' \<Rightarrow> el' | None \<Rightarrow> el)"

definition run :: "bool \<Rightarrow> event list \<Rightarrow> group3d \<Rightarrow> group3d" where
  "run isMobile evs el = fold (handle isMobile) evs el"

text \<open>The values a scroll update emits: position.y, scale and the mesh opacities.\<close>

definition emitted :: "group3d \<Rightarrow> real \<times> real \<times> real list" where
  "emitted el = (position_y el, scale el, mesh_opacities (scene el))"

section \<open>HammerModel: loading the model (HammerScene.tsx, lines 89 and 358)\<close>

type_synonym bytes = "nat list"

datatype load_error = FetchError | DecryptionError | MalformedAssetError

text \<open>
  \<open>useGLTF(url)\<close> of @react-three/drei: the file at \<open>url\<close> is fetched and its bytes
  are handed to the glTF parser. The server and the parser are parameters; nothing is
  assumed of either. The load is read in its two steps: the bytes that reach the parser,
  and the parser's verdict on them.
\<close>

definition useGLTF_bytes :: "(string \<Rightarrow> bytes option) \<Rightarrow> string \<Rightarrow> load_error + bytes" where
  "useGLTF_bytes fetch url = (case fetch url of None \<Rightarrow> Inl FetchError | Some b \<Rightarrow> Inr b)"

definition parse_bytes :: "(bytes \<Rightarrow> 'a option) \<Rightarrow> load_error + bytes \<Rightarrow> load_error + 'a" where
  "parse_bytes parse r =
     (case r of
        Inl e \<Rightarrow> Inl e
      | Inr b \<Rightarrow> (case parse b of None \<Rightarrow> Inl MalformedAssetError | Some sc \<Rightarrow> Inr sc))"

definition useGLTF :: "(string \<Rightarrow> bytes option) \<Rightarrow> (bytes \<Rightarrow> 'a option) \<Rightarrow> string \<Rightarrow> load_error + 'a" where
  "useGLTF fetch parse url = parse_bytes parse (useGLTF_bytes fetch url)"

text \<open>\<open>const { scene } = useGLTF("/models/hammer.glb")\<close>, the same line in both listings.\<close>

definition HammerModel_bytes :: "(string \<Rightarrow> bytes option) \<Rightarrow> load_error + bytes" where
  "HammerModel_bytes fetch = useGLTF_bytes fetch ''/models/hammer.glb''"

definition HammerModel_scene :: "(string \<Rightarrow> bytes option) \<Rightarrow> (bytes \<Rightarrow> 'a option) \<Rightarrow> load_error + 'a" where
  "HammerModel_scene fetch parse = useGLTF fetch parse ''/models/hammer.glb''"

text \<open>
  Modelled from the spec: \<open>decrypt(encryptedBytes, password)\<close> of the AssetDecryptor
  (\<open>utils/decrypt.ts\<close> is not among the sources). The blob is a fixed-size initialization
  vector followed by the ciphertext; a blob too short to hold the vector is truncated and
  fails. The vector has the 16 bytes of AES-CBC, the cipher the README names. The cipher
  itself is a parameter, \<open>None\<close> being its failure.
\<close>

definition iv_length :: nat where
  "iv_length = 16"

definition decrypt :: "(bytes \<Rightarrow> bytes \<Rightarrow> string \<Rightarrow> bytes option) \<Rightarrow> bytes \<Rightarrow> string \<Rightarrow> load_error + bytes" where
  "decrypt cipher encryptedBytes password =
     (if length encryptedBytes < iv_length then Inl DecryptionError
      else (case cipher (take iv_length encryptedBytes) (drop iv_length encryptedBytes) password of
              None \<Rightarrow> Inl DecryptionError
            | Some plaintextBytes \<Rightarrow> Inr plaintextBytes))"

text \<open>
  Modelled from the spec: the load as the specification words it, the fetched blob being
  decrypted before its bytes are parsed. Again in two steps: the bytes that reach the
  parser, and the parser's verdict.
\<close>

definition decrypting_bytes ::
  "(string \<Rightarrow> bytes option) \<Rightarrow> (bytes \<Rightarrow> bytes \<Rightarrow> string \<Rightarrow> bytes option) \<Rightarrow> string \<Rightarrow>
   string \<Rightarrow> load_error + bytes" where
  "decrypting_bytes fetch cipher password url =
     (case fetch url of None \<Rightarrow> Inl FetchError | Some enc \<Rightarrow> decrypt cipher enc password)"

definition decrypting_load ::
  "(string \<Rightarrow> bytes option) \<Rightarrow> (bytes \<Rightarrow> bytes \<Rightarrow> string \<Rightarrow> bytes option) \<Rightarrow> string \<Rightarrow>
   (bytes \<Rightarrow> 'a option) \<Rightarrow> string \<Rightarrow> load_error + 'a" where
  "decrypting_load fetch cipher password parse url =
     parse_bytes parse (decrypting_bytes fetch cipher password url)"

section \<open>HammerModel, second listing: the scroll handler (HammerScene.tsx, lines 413-437)\<close>

text \<open>\<open>String.prototype.includes\<close>.\<close>

fun str_includes :: "string \<Rightarrow> string \<Rightarrow> bool" where
  "str_includes [] sub = (sub = [])"
| "str_includes (c # cs) sub = (take (length sub) (c # cs) = sub \<or> str_includes cs sub)"

text \<open>
  The traversal callback: a mesh whose name contains \<open>Cube\<close> is left as it is (the
  callback returns early), every other mesh gets its opacity and its visibility.
\<close>

definition fadeMesh :: "real \<Rightarrow> object3d_props \<Rightarrow> object3d_props" where
  "fadeMesh progress child =
     (if isMesh child then
        (if str_includes (name child) ''Cube'' then child
         else (let child1 = child\<lparr>opacity := max 0 (1 - progress * 1.5)\<rparr>
               in child1\<lparr>visible := (opacity child1 > 0)\<rparr>))
      else child)"

definition onUpdate2 :: "bool \<Rightarrow> real \<Rightarrow> group3d \<Rightarrow> group3d" where
  "onUpdate2 isMobile progress el =
     (let startY = (if isMobile then - 0.5 else 0);
          el1 = el\<lparr>position_y := startY - progress * 8\<rparr>;
          baseScale = (if isMobile then 0.7 else 1.2);
          targetScale = baseScale * (1 - progress * 0.3);
          el2 = el1\<lparr>scale := targetScale\<rparr>
      in el2\<lparr>scene := traverse (fadeMesh progress) (scene el2)\<rparr>)"

text \<open>The visibility flags the handler writes: those of the meshes it does not skip.\<close>

fun toggled_visibility :: "object3d \<Rightarrow> bool list" where
  "toggled_visibility (Object3D p cs) =
     (if isMesh p \<and> \<not> str_includes (name p) ''Cube'' then [visible p] else [])
     @ concat (map toggled_visibility cs)"

section \<open>Event listeners (TechStack.tsx, lines 146-176; HammerScene.tsx, lines 219-223)\<close>

text \<open>
  A registered listener is its target, its event type and its callback. The callbacks are
  closures that every run of an effect creates anew, so each carries the number of the run
  (the mount) that created it; the click callback is moreover a fresh arrow function for
  every anchor of \<open>document.querySelectorAll(".header a")\<close>.
\<close>

datatype event_target = Window | Anchor nat

datatype callback =
    TechStack_handleResize nat
  | TechStack_handleScroll nat
  | TechStack_onClick nat nat
  | HammerScene_handleResize nat

type_synonym listener = "event_target \<times> string \<times> callback"

definition addEventListener :: "listener \<Rightarrow> listener list \<Rightarrow> listener list" where
  "addEventListener l ls = (if l \<in> set ls then ls else ls @ [l])"

definition removeEventListener :: "listener \<Rightarrow> listener list \<Rightarrow> listener list" where
  "removeEventListener l ls = removeAll l ls"

definition TechStack_effect :: "nat \<Rightarrow> nat list \<Rightarrow> listener list \<Rightarrow> listener list" where
  "TechStack_effect mount anchors ls =
     (let ls1 = addEventListener (Window, ''resize'', TechStack_handleResize mount) ls;
          ls2 = fold (\<lambda>elem. addEventListener (Anchor elem, ''click'', TechStack_onClick mount elem))
                  anchors ls1
      in addEventListener (Window, ''scroll'', TechStack_handleScroll mount) ls2)"

definition TechStack_cleanup :: "nat \<Rightarrow> listener list \<Rightarrow> listener list" where
  "TechStack_cleanup mount ls =
     removeEventListener (Window, ''resize'', TechStack_handleResize mount)
       (removeEventListener (Window, ''scroll'', TechStack_handleScroll mount) ls)"

definition HammerScene_resize_effect :: "nat \<Rightarrow> listener list \<Rightarrow> listener list" where
  "HammerScene_resize_effect mount ls =
     addEventListener (Window, ''resize'', HammerScene_handleResize mount) ls"

definition HammerScene_resize_cleanup :: "nat \<Rightarrow> listener list \<Rightarrow> listener list" where
  "HammerScene_resize_cleanup mount ls =
     removeEventListener (Window, ''resize'', HammerScene_handleResize mount) ls"

section \<open>Layout modes\<close>

text \<open>
  \<open>window.innerWidth\<close> is a whole number of CSS pixels. \<open>HammerScene\<close> and
  \<open>TechStack\<close> hold their boolean in a state, \<open>useState(window.innerWidth < ...)\<close>.
\<close>

definition HammerScene_isMobile :: "int \<Rightarrow> bool" where
  "HammerScene_isMobile innerWidth = (innerWidth < 1024)"

definition TechStack_isMobile :: "int \<Rightarrow> bool" where
  "TechStack_isMobile innerWidth = (innerWidth < 768)"

text \<open>
  \<open>handleResize\<close> of either component, run once for a resize event: it reads
  \<open>window.innerWidth\<close> and sets the state, whatever the state was.
\<close>

definition HammerScene_resize :: "int \<Rightarrow> bool \<Rightarrow> bool" where
  "HammerScene_resize innerWidth isMobile = (innerWidth < 1024)"

definition TechStack_resize :: "int \<Rightarrow> bool \<Rightarrow> bool" where
  "TechStack_resize innerWidth isMobile = (innerWidth < 768)"

text \<open>
  \<open>HammerModel\<close> reads \<open>viewport.width\<close> of \<open>useThree()\<close>, the width of the three.js
  viewport in world units: it is no function of the pixel width (the aspect ratio of the
  canvas enters it) and is taken as an input of its own. The boolean is computed when the
  component renders, and the scroll handler the effect registers uses that boolean.
\<close>

definition HammerModel_isMobile :: "real \<Rightarrow> bool" where
  "HammerModel_isMobile viewport_width = (viewport_width < 5)"

definition HammerModel_onUpdate :: "real \<Rightarrow> real \<Rightarrow> group3d \<Rightarrow> group3d" where
  "HammerModel_onUpdate viewport_width progress el =
     onUpdate (HammerModel_isMobile viewport_width) progress el"

section \<open>Scroll timelines (GsapScroll)\<close>

datatype js_value = Num real | Str string

text \<open>A tween of a timeline: its target selector, its variables and its position.\<close>

datatype tween =
    To string "(string \<times> js_value) list" real
  | FromTo string "(string \<times> js_value) list" "(string \<times> js_value) list" real

record scroll_trigger =
  st_id :: "string option"
  trigger :: string
  start :: string
  st_end :: string
  scrub :: bool
  invalidateOnRefresh :: bool
  animation :: "tween list"

text \<open>
  The registry of ScrollTrigger, in creation order. \<open>gsap.timeline({scrollTrigger: ...})\<close>
  registers its trigger when it is called; the tweens added afterwards are the animation
  the trigger scrubs.
\<close>

definition setPageScrollAnimations :: "int \<Rightarrow> scroll_trigger list \<Rightarrow> scroll_trigger list" where
  "setPageScrollAnimations innerWidth reg =
     (let tl1 = \<lparr>st_id = None, trigger = ''.landing-section'', start = ''top top'',
                 st_end = ''bottom top'', scrub = True, invalidateOnRefresh = True,
                 animation = []\<rparr>;
          tl2 = \<lparr>st_id = None, trigger = ''.about-section'', start = ''center 55%'',
                 st_end = ''bottom top'', scrub = True, invalidateOnRefresh = True,
                 animation = []\<rparr>;
          tl3 = \<lparr>st_id = None, trigger = ''.whatIDO'', start = ''top top'',
                 st_end = ''bottom top'', scrub = True, invalidateOnRefresh = True,
                 animation = []\<rparr>
      in if innerWidth > 1024 then
           reg @
           [tl1\<lparr>animation :=
              [To ''.landing-container'' [(''opacity'', Num 0), (''duration'', Num 0.4)] 0,
               To ''.landing-container'' [(''y'', Str ''40%''), (''duration'', Num 0.8)] 0,
               FromTo ''.about-me'' [(''y'', Str ''-50%'')] [(''y'', Str ''0%'')] 0]\<rparr>,
            tl2\<lparr>animation :=
              [To ''.about-section'' [(''y'', Str ''30%''), (''duration'', Num 6)] 0,
               To ''.about-section''
                 [(''opacity'', Num 0), (''delay'', Num 3), (''duration'', Num 2)] 0,
               FromTo ''.what-box-in'' [(''display'', Str ''none'')]
                 [(''display'', Str ''flex''), (''duration'', Num 0.1), (''delay'', Num 6)] 0]\<rparr>,
            tl3\<lparr>animation :=
              [FromTo ''.whatIDO'' [(''y'', Num 0)] [(''y'', Str ''15%''), (''duration'', Num 2)] 0]\<rparr>]
         else
           (let tM2 = \<lparr>st_id = None, trigger = ''.what-box-in'', start = ''top 70%'',
                        st_end = ''bottom top'', scrub = False, invalidateOnRefresh = False,
                        animation = []\<rparr>
            in reg @
               [tl1, tl2, tl3,
                tM2\<lparr>animation :=
                  [To ''.what-box-in''
                     [(''display'', Str ''flex''), (''duration'', Num 0.1), (''delay'', Num 0)] 0]\<rparr>]))"

definition setAllTimeline :: "int \<Rightarrow> scroll_trigger list \<Rightarrow> scroll_trigger list" where
  "setAllTimeline innerWidth reg =
     (let careerTimeline =
            \<lparr>st_id = None, trigger = ''.career-section'', start = ''top 30%'',
             st_end = ''100% center'', scrub = True, invalidateOnRefresh = True,
             animation =
               [FromTo ''.career-timeline'' [(''maxHeight'', Str ''10%'')]
                  [(''maxHeight'', Str ''100%''), (''duration'', Num 0.5)] 0,
                FromTo ''.career-timeline'' [(''opacity'', Num 0)]
                  [(''opacity'', Num 1), (''duration'', Num 0.1)] 0,
                FromTo ''.career-info-box'' [(''opacity'', Num 0)]
                  [(''opacity'', Num 1), (''stagger'', Num 0.1), (''duration'', Num 0.5)] 0,
                FromTo ''.career-dot'' [(''animationIterationCount'', Str ''infinite'')]
                  [(''animationIterationCount'', Str ''1''), (''delay'', Num 0.3),
                   (''duration'', Num 0.1)] 0]\<rparr>
      in if innerWidth > 1024 then
           reg @
           [careerTimeline\<lparr>animation := animation careerTimeline @
              [FromTo ''.career-section'' [(''y'', Num 0)]
                 [(''y'', Str ''20%''), (''duration'', Num 0.5), (''delay'', Num 0.2)] 0]\<rparr>]
         else
           reg @
           [careerTimeline\<lparr>animation := animation careerTimeline @
              [FromTo ''.career-section'' [(''y'', Num 0)]
                 [(''y'', Num 0), (''duration'', Num 0.5), (''delay'', Num 0.2)] 0]\<rparr>])"

section \<open>HammerScene: the mount effect (HammerScene.tsx, lines 225-243)\<close>

text \<open>
  \<open>ScrollTrigger.getById(id)\<close>: the registered trigger of that id, if any; where several
  triggers were created under one id, the one created last (each creation overwrites the
  entry of its id). A trigger is identified by its place in the registry, so that \<open>!==\<close>
  compares identities.
\<close>

definition getById :: "string \<Rightarrow> scroll_trigger list \<Rightarrow> nat option" where
  "getById i reg =
     map_option fst (find (\<lambda>(k, t). st_id t = Some i) (rev (zip [0..<length reg] reg)))"

text \<open>The calls the effect makes on the loading collaborator.\<close>

datatype loading_call = SetProgress | Loaded | Clear

record page =
  loading :: "loading_call list"
  triggers :: "scroll_trigger list"

text \<open>
  \<open>ScrollTrigger.getAll()\<close>: which of the registered triggers it lists is a parameter
  of the effect, the predicate \<open>listed\<close>. The listing of gsap leaves out one trigger,
  the one that ScrollSmoother creates under the id \<open>ScrollSmoother\<close>.
\<close>

definition gsap_listed :: "scroll_trigger \<Rightarrow> bool" where
  "gsap_listed t = (st_id t \<noteq> Some ''ScrollSmoother'')"

text \<open>
  The effect: \<open>setProgress\<close> and \<open>loaded()\<close>, then every trigger that
  \<open>ScrollTrigger.getAll()\<close> lists, other than the two looked up, is killed, then the two
  timeline functions run.
\<close>

definition HammerScene_effect :: "(scroll_trigger \<Rightarrow> bool) \<Rightarrow> int \<Rightarrow> page \<Rightarrow> page" where
  "HammerScene_effect listed innerWidth pg =
     (let pg1 = pg\<lparr>loading := loading pg @ [SetProgress]\<rparr>;
          pg2 = pg1\<lparr>loading := loading pg1 @ [Loaded]\<rparr>;
          workTrigger = getById ''work'' (triggers pg2);
          hammerTrigger = getById ''hammer'' (triggers pg2);
          kept = map snd
                   (filter (\<lambda>(k, t). \<not> (listed t \<and> Some k \<noteq> workTrigger
                                        \<and> Some k \<noteq> hammerTrigger))
                      (zip [0..<length (triggers pg2)] (triggers pg2)));
          pg3 = pg2\<lparr>triggers := kept\<rparr>;
          pg4 = pg3\<lparr>triggers := setAllTimeline innerWidth (triggers pg3)\<rparr>
      in pg4\<lparr>triggers := setPageScrollAnimations innerWidth (triggers pg4)\<rparr>)"

definition HammerScene_effect_cleanup :: "page \<Rightarrow> page" where
  "HammerScene_effect_cleanup pg = pg\<lparr>loading := loading pg @ [Clear]\<rparr>"

section \<open>The rotation bounds of the frame handler\<close>

definition rotation_ok :: "group3d \<Rightarrow> bool" where
  "rotation_ok el \<longleftrightarrow> - 0.02 \<le> rotation_z el \<and> rotation_z el \<le> 0.02
     \<and> - 0.01 \<le> rotation_x el \<and> rotation_x el \<le> 0.2"

section \<open>Concrete inputs\<close>

text \<open>A scene of one mesh under a root, a lightning group of one bolt, and their group.\<close>

definition hammer_mesh :: object3d where
  "hammer_mesh =
     Object3D \<lparr>name = ''Hammer'', isMesh = True, opacity = 1, visible = True,
               scrollOpacity = None\<rparr> []"

definition gltf_scene :: object3d where
  "gltf_scene =
     Object3D \<lparr>name = ''Scene'', isMesh = False, opacity = 1, visible = True,
               scrollOpacity = None\<rparr> [hammer_mesh]"

definition bolts :: object3d where
  "bolts =
     Object3D \<lparr>name = [], isMesh = False, opacity = 1, visible = True, scrollOpacity = None\<rparr>
       [Object3D \<lparr>name = ''lightningBolt'', isMesh = True, opacity = 0, visible = True,
                  scrollOpacity = None\<rparr> []]"

definition desktop_group :: group3d where
  "desktop_group = HammerModel_group False gltf_scene bolts"

text \<open>
  A server whose file under \<open>/models/hammer.glb\<close> is cut off after twelve bytes (the
  header of a binary glTF file: the magic \<open>glTF\<close>, version 2, length 12), and a cipher to
  put in the place of the cipher; which one is of no account for a file this short.
\<close>

definition truncated_glb :: bytes where
  "truncated_glb = [103, 108, 84, 70, 2, 0, 0, 0, 12, 0, 0, 0]"

definition truncated_server :: "string \<Rightarrow> bytes option" where
  "truncated_server url = (if url = ''/models/hammer.glb'' then Some truncated_glb else None)"

definition sample_cipher :: "bytes \<Rightarrow> bytes \<Rightarrow> string \<Rightarrow> bytes option" where
  "sample_cipher iv ciphertext password = Some ciphertext"

text \<open>A registry as the page may hold it when the scene mounts.\<close>

definition plain_trigger :: "string option \<Rightarrow> string \<Rightarrow> scroll_trigger" where
  "plain_trigger i sel =
     \<lparr>st_id = i, trigger = sel, start = ''top top'', st_end = ''bottom top'', scrub = True,
      invalidateOnRefresh = False, animation = []\<rparr>"

definition page_registry :: "scroll_trigger list" where
  "page_registry =
     [plain_trigger None ''.para'',
      plain_trigger (Some ''work'') ''.work-section'',
      plain_trigger None ''.title'',
      plain_trigger (Some ''hammer'') ''.landing-section'']"

text \<open>A registry in which two triggers were created under the id \<open>work\<close>.\<close>

definition twofold_registry :: "scroll_trigger list" where
  "twofold_registry =
     [plain_trigger (Some ''work'') ''.work-section'',
      plain_trigger (Some ''work'') ''.work-flex'',
      plain_trigger (Some ''hammer'') ''.landing-section'']"

section \<open>Facts about traversal\<close>

lemma mesh_opacities_traverse_keep:
  assumes "\<And>p. isMesh (f p) = isMesh p" and "\<And>p. opacity (f p) = opacity p"
  shows "mesh_opacities (traverse f t) = mesh_opacities t"
proof (induction t)
  case (Object3D p cs)
  have "concat (map (mesh_opacities \<circ> traverse f) cs) = concat (map mesh_opacities cs)"
    using Object3D.IH by (intro arg_cong[where f = concat] map_cong) auto
  then show ?case by (simp add: assms)
qed

lemma mesh_opacities_traverse_set:
  assumes "\<And>p. isMesh (f p) = isMesh p" and "\<And>p. isMesh p \<Longrightarrow> opacity (f p) = v"
  shows "mesh_opacities (traverse f t) = map (\<lambda>_. v) (mesh_opacities t)"
proof (induction t)
  case (Object3D p cs)
  have "concat (map (mesh_opacities \<circ> traverse f) cs)
        = concat (map (map (\<lambda>_. v) \<circ> mesh_opacities) cs)"
    using Object3D.IH by (intro arg_cong[where f = concat] map_cong) auto
  then show ?case by (simp add: assms map_concat)
qed

lemma mesh_opacities_onUpdate:
  "mesh_opacities (scene (onUpdate m p el)) =
     map (\<lambda>_. max 0 (1 - p * 1.5)) (mesh_opacities (scene el))"
proof -
  have "mesh_opacities (traverse (setBoltScrollOpacity p) (traverse (setMeshOpacity p) (scene el)))
        = mesh_opacities (traverse (setMeshOpacity p) (scene el))"
    by (rule mesh_opacities_traverse_keep) (simp_all add: setBoltScrollOpacity_def)
  also have "\<dots> = map (\<lambda>_. max 0 (1 - p * 1.5)) (mesh_opacities (scene el))"
    by (rule mesh_opacities_traverse_set) (simp_all add: setMeshOpacity_def)
  finally show ?thesis by (simp add: onUpdate_def Let_def)
qed

lemma position_y_onUpdate:
  "position_y (onUpdate m p el) = (if m then - 1.5 else - 0.5) - p * 2.5"
  by (simp add: onUpdate_def Let_def)

lemma scale_onUpdate:
  "scale (onUpdate m p el) = (if m then 0.55 else 0.8) * (1 - p * 0.1)"
  by (simp add: onUpdate_def Let_def)

section \<open>The scroll handler of HammerModel\<close>

lemma length_mesh_opacities_handle:
  "length (mesh_opacities (scene (handle m ev el))) = length (mesh_opacities (scene el))"
  by (cases ev) (simp_all add: mesh_opacities_onUpdate useFrame_cb_def Let_def)

lemma length_mesh_opacities_run:
  "length (mesh_opacities (scene (run m evs el))) = length (mesh_opacities (scene el))"
  unfolding run_def
  by (induction evs arbitrary: el) (simp_all add: length_mesh_opacities_handle)

lemma emitted_onUpdate:
  "emitted (onUpdate m p el) =
     ((if m then - 1.5 else - 0.5) - p * 2.5,
      (if m then 0.55 else 0.8) * (1 - p * 0.1),
      replicate (length (mesh_opacities (scene el))) (max 0 (1 - p * 1.5)))"
  by (simp add: emitted_def position_y_onUpdate scale_onUpdate mesh_opacities_onUpdate
      map_replicate_const)

text \<open>
  C2. A scroll update is a function of its progress value and of the layout mode alone:
  whatever scroll updates and frames the group has gone through before, the update emits
  the same position.y, the same scale and the same mesh opacities.
\<close>

theorem onUpdate_deterministic:
  "emitted (onUpdate isMobile progress (run isMobile evs el)) =
   emitted (onUpdate isMobile progress (run isMobile evs' el))"
  by (simp only: emitted_onUpdate length_mesh_opacities_run)

text \<open>
  C3. For progress values \<open>p \<le> p'\<close> in \<open>[0, 1]\<close> the emitted position.y, scale and
  mesh opacities at \<open>p\<close> are at least those at \<open>p'\<close>, and each of them is continuous
  in the progress on \<open>[0, 1]\<close>.
\<close>

theorem onUpdate_monotone:
  assumes "0 \<le> p" and "p \<le> p'" and "p' \<le> 1"
  shows "position_y (onUpdate isMobile p el) \<ge> position_y (onUpdate isMobile p' el)
       \<and> scale (onUpdate isMobile p el) \<ge> scale (onUpdate isMobile p' el)
       \<and> list_all2 (\<lambda>a b. a \<ge> b) (mesh_opacities (scene (onUpdate isMobile p el)))
            (mesh_opacities (scene (onUpdate isMobile p' el)))
       \<and> continuous_on {0..1} (\<lambda>q. position_y (onUpdate isMobile q el))
       \<and> continuous_on {0..1} (\<lambda>q. scale (onUpdate isMobile q el))
       \<and> (\<forall>i < length (mesh_opacities (scene el)).
            continuous_on {0..1} (\<lambda>q. mesh_opacities (scene (onUpdate isMobile q el)) ! i))"
proof -
  have py: "position_y (onUpdate isMobile p el) \<ge> position_y (onUpdate isMobile p' el)"
    using assms by (simp add: position_y_onUpdate)
  have sc: "scale (onUpdate isMobile p el) \<ge> scale (onUpdate isMobile p' el)"
    using assms by (simp add: scale_onUpdate)
  have "max 0 (1 - p' * 1.5) \<le> max 0 (1 - p * 1.5)"
    using assms by (simp add: max_def)
  then have op: "list_all2 (\<lambda>a b. a \<ge> b) (mesh_opacities (scene (onUpdate isMobile p el)))
            (mesh_opacities (scene (onUpdate isMobile p' el)))"
    by (simp add: mesh_opacities_onUpdate list_all2_map1 list_all2_map2 list_all2_same)
  have c1: "continuous_on {0..1} (\<lambda>q. position_y (onUpdate isMobile q el))"
    unfolding position_y_onUpdate by (intro continuous_intros)
  have c2: "continuous_on {0..1} (\<lambda>q. scale (onUpdate isMobile q el))"
    unfolding scale_onUpdate by (intro continuous_intros)
  have c3: "continuous_on {0..1} (\<lambda>q. mesh_opacities (scene (onUpdate isMobile q el)) ! i)"
    if "i < length (mesh_opacities (scene el))" for i
  proof -
    have "(\<lambda>q. mesh_opacities (scene (onUpdate isMobile q el)) ! i) = (\<lambda>q. max 0 (1 - q * 1.5))"
      using that by (simp add: mesh_opacities_onUpdate)
    moreover have "continuous_on {0..1} (\<lambda>q::real. max 0 (1 - q * 1.5))"
      by (intro continuous_intros)
    ultimately show ?thesis by (simp only:)
  qed
  from py sc op c1 c2 c3 show ?thesis by blast
qed

theorem onUpdate_monotone_witness:
  "(0::real) \<le> 1/4 \<and> (1/4::real) \<le> 1/2 \<and> (1/2::real) \<le> 1
   \<and> position_y (onUpdate False (1/4) desktop_group) \<ge> position_y (onUpdate False (1/2) desktop_group)
   \<and> scale (onUpdate False (1/4) desktop_group) \<ge> scale (onUpdate False (1/2) desktop_group)
   \<and> mesh_opacities (scene (onUpdate False (1/4) desktop_group)) = [5/8]
   \<and> mesh_opacities (scene (onUpdate False (1/2) desktop_group)) = [1/4]"
  using onUpdate_monotone [of "1/4" "1/2" False desktop_group]
  by (simp add: mesh_opacities_onUpdate desktop_group_def HammerModel_group_def gltf_scene_def
      hammer_mesh_def)

text \<open>
  C4. At progress 0 the update emits the rest values (the position.y and scale the group
  is created with, opacity 1); at progress 1 it emits position.y lowered by 2.5, nine
  tenths of the base scale and opacity 0; no emitted opacity is negative.
\<close>

theorem onUpdate_endpoints:
  "position_y (onUpdate isMobile 0 el) = (if isMobile then - 1.5 else - 0.5)
   \<and> scale (onUpdate isMobile 0 el) = (if isMobile then 0.55 else 0.8)
   \<and> mesh_opacities (scene (onUpdate isMobile 0 el)) = map (\<lambda>_. 1) (mesh_opacities (scene el))
   \<and> position_y (onUpdate isMobile 1 el) = (if isMobile then - 1.5 else - 0.5) - 2.5
   \<and> scale (onUpdate isMobile 1 el) = 0.9 * (if isMobile then 0.55 else 0.8)
   \<and> mesh_opacities (scene (onUpdate isMobile 1 el)) = map (\<lambda>_. 0) (mesh_opacities (scene el))
   \<and> position_y (onUpdate isMobile 0 (HammerModel_group isMobile sc li))
       = position_y (HammerModel_group isMobile sc li)
   \<and> scale (onUpdate isMobile 0 (HammerModel_group isMobile sc li))
       = scale (HammerModel_group isMobile sc li)
   \<and> list_all (\<lambda>a. 0 \<le> a) (mesh_opacities (scene (onUpdate isMobile progress el)))"
  by (simp add: position_y_onUpdate scale_onUpdate mesh_opacities_onUpdate HammerModel_group_def
      list_all_iff)

theorem onUpdate_endpoints_witness:
  "position_y (onUpdate False 1 desktop_group) = - 3
   \<and> scale (onUpdate False 1 desktop_group) = 0.72
   \<and> mesh_opacities (scene (onUpdate False 1 desktop_group)) = [0]
   \<and> mesh_opacities (scene (onUpdate False 0 desktop_group)) = [1]"
  using onUpdate_endpoints [of False desktop_group gltf_scene bolts 1]
  by (simp add: desktop_group_def HammerModel_group_def gltf_scene_def hammer_mesh_def)

section \<open>The frame handler of HammerModel\<close>

lemma lerp_between:
  assumes "lo \<le> x" "x \<le> hi" "lo \<le> y" "y \<le> hi"
  shows "lo \<le> lerp x y 0.05 \<and> lerp x y 0.05 \<le> hi"
  using assms unfolding lerp_def by (simp add: algebra_simps)

lemma rotation_ok_handle: "rotation_ok el \<Longrightarrow> rotation_ok (handle m ev el)"
proof (cases ev)
  case (Scroll q)
  then show "rotation_ok el \<Longrightarrow> ?thesis"
    by (simp add: rotation_ok_def onUpdate_def Let_def)
next
  case (Frame h t d)
  assume ok: "rotation_ok el"
  have sz: "- 1 \<le> sin (t * 2) \<and> sin (t * 2) \<le> 1"
    and sx: "- 1 \<le> sin (t * 1.5) \<and> sin (t * 1.5) \<le> 1" by simp_all
  define tz where "tz = (if h then sin (t * 2) * 0.02 else 0)"
  define tx where "tx = (if h then sin (t * 1.5) * 0.01 else 0)"
  have tzb: "- 0.02 \<le> tz \<and> tz \<le> 0.02"
    using sz unfolding tz_def by (cases h) simp_all
  have "- 0.01 \<le> tx \<and> tx \<le> 0.01"
    using sx unfolding tx_def by (cases h) simp_all
  moreover have "(0.01::real) \<le> 0.2" by simp
  ultimately have txb: "- 0.01 \<le> tx \<and> tx \<le> 0.2" by linarith
  have z: "- 0.02 \<le> lerp (rotation_z el) tz 0.05 \<and> lerp (rotation_z el) tz 0.05 \<le> 0.02"
    using ok tzb by (intro lerp_between) (simp_all add: rotation_ok_def)
  have x: "- 0.01 \<le> lerp (rotation_x el) tx 0.05 \<and> lerp (rotation_x el) tx 0.05 \<le> 0.2"
    using ok txb by (intro lerp_between) (simp_all add: rotation_ok_def)
  show ?thesis
    using z x unfolding Frame tz_def tx_def
    by (simp add: rotation_ok_def useFrame_cb_def Let_def)
qed

lemma rotation_ok_run: "rotation_ok el \<Longrightarrow> rotation_ok (run m evs el)"
  unfolding run_def by (induction evs arbitrary: el) (simp_all add: rotation_ok_handle)

text \<open>
  C9. From the rotation the group is created with, after any sequence of frames (hovered
  or not, at any clock time) and scroll updates, rotation.z lies in \<open>[-0.02, 0.02]\<close> and
  rotation.x in \<open>[-0.01, 0.2]\<close>, the interval spanned by its initial value 0.2 and the
  target range.
\<close>

theorem rotation_bounded:
  "- 0.02 \<le> rotation_z (run isMobile evs (HammerModel_group isMobile sc li))
   \<and> rotation_z (run isMobile evs (HammerModel_group isMobile sc li)) \<le> 0.02
   \<and> - 0.01 \<le> rotation_x (run isMobile evs (HammerModel_group isMobile sc li))
   \<and> rotation_x (run isMobile evs (HammerModel_group isMobile sc li)) \<le> 0.2"
proof -
  have "rotation_ok (HammerModel_group isMobile sc li)"
    by (simp add: rotation_ok_def HammerModel_group_def)
  then have "rotation_ok (run isMobile evs (HammerModel_group isMobile sc li))"
    by (rule rotation_ok_run)
  then show ?thesis by (simp add: rotation_ok_def)
qed

section \<open>Loading the model\<close>

lemma truncated_never_decrypts:
  "decrypting_bytes truncated_server cipher password ''/models/hammer.glb'' = Inl DecryptionError"
  by (simp add: decrypting_bytes_def decrypt_def iv_length_def truncated_server_def
      truncated_glb_def)

lemma parse_bytes_no_DecryptionError:
  "r \<noteq> Inl DecryptionError \<Longrightarrow> parse_bytes parse r \<noteq> Inl DecryptionError"
  by (auto simp: parse_bytes_def split: sum.splits option.splits)

text \<open>
  C1, as stated, fails. The server holds a file cut off after its twelve-byte header.
  \<open>HammerModel\<close> hands these very bytes to the parser; a load that decrypts first stops
  with \<open>DecryptionError\<close> before any byte reaches the parser, the blob being shorter
  than an initialization vector (whatever the cipher and the password, by
  \<open>truncated_never_decrypts\<close>).
\<close>

theorem HammerModel_plaintext_counterexample:
  "HammerModel_bytes truncated_server = Inr truncated_glb
   \<and> decrypting_bytes truncated_server sample_cipher ''password'' ''/models/hammer.glb''
       = Inl DecryptionError"
  by (simp add: HammerModel_bytes_def useGLTF_bytes_def truncated_never_decrypts)
    (simp add: truncated_server_def)

text \<open>
  C1, amended. Whatever the server, the parser, the cipher and the password: the scene is
  obtained exactly when the parser accepts the bytes served under \<open>/models/hammer.glb\<close>
  as they are; the load never fails with \<open>DecryptionError\<close>; and the bytes that reach
  the parser are those of the decrypting load exactly when nothing is served or
  decryption would return the served bytes unchanged.
\<close>

theorem HammerModel_scene_plain:
  "(HammerModel_scene fetch parse = Inr sc)
     = (\<exists>b. fetch ''/models/hammer.glb'' = Some b \<and> parse b = Some sc)
   \<and> HammerModel_scene fetch parse \<noteq> Inl DecryptionError
   \<and> (HammerModel_bytes fetch = decrypting_bytes fetch cipher password ''/models/hammer.glb'')
     = (fetch ''/models/hammer.glb'' = None
        \<or> (\<exists>b. fetch ''/models/hammer.glb'' = Some b \<and> decrypt cipher b password = Inr b))"
proof -
  have a: "(HammerModel_scene fetch parse = Inr sc)
     = (\<exists>b. fetch ''/models/hammer.glb'' = Some b \<and> parse b = Some sc)"
    by (auto simp: HammerModel_scene_def useGLTF_def useGLTF_bytes_def parse_bytes_def
        split: option.splits)
  have "useGLTF_bytes fetch ''/models/hammer.glb'' \<noteq> Inl DecryptionError"
    by (simp add: useGLTF_bytes_def split: option.splits)
  then have b: "HammerModel_scene fetch parse \<noteq> Inl DecryptionError"
    unfolding HammerModel_scene_def useGLTF_def by (rule parse_bytes_no_DecryptionError)
  have c: "(HammerModel_bytes fetch = decrypting_bytes fetch cipher password ''/models/hammer.glb'')
     = (fetch ''/models/hammer.glb'' = None
        \<or> (\<exists>b. fetch ''/models/hammer.glb'' = Some b \<and> decrypt cipher b password = Inr b))"
    by (cases "fetch ''/models/hammer.glb''")
      (auto simp: HammerModel_bytes_def useGLTF_bytes_def decrypting_bytes_def)
  from a b c show ?thesis by blast
qed

section \<open>The scroll handler of the second listing\<close>

lemma traverse_traverse: "traverse f (traverse g t) = traverse (f \<circ> g) t"
  by (induction t) simp

lemma fadeMesh_overwrites: "fadeMesh p \<circ> fadeMesh q = fadeMesh p"
  by (rule ext) (simp add: fadeMesh_def Let_def)

lemma onUpdate2_overwrites: "onUpdate2 m p (onUpdate2 m q el) = onUpdate2 m p el"
  by (simp add: onUpdate2_def Let_def traverse_traverse fadeMesh_overwrites)

lemma onUpdate2_after_fold: "onUpdate2 m p (fold (onUpdate2 m) qs el) = onUpdate2 m p el"
  by (induction qs arbitrary: el) (simp_all add: onUpdate2_overwrites)

lemma fade_visible: "(max 0 (1 - p * 1.5) > (0::real)) = (p < 2/3)"
  by (auto simp: max_def)

lemma fadeMesh_fields:
  "isMesh (fadeMesh p x) = isMesh x"
  "name (fadeMesh p x) = name x"
  "isMesh x \<Longrightarrow> \<not> str_includes (name x) ''Cube'' \<Longrightarrow> visible (fadeMesh p x) = (p < 2/3)"
  using fade_visible [of p] by (simp_all add: fadeMesh_def Let_def)

lemma toggled_visibility_fadeMesh:
  "toggled_visibility (traverse (fadeMesh p) t) = map (\<lambda>_. p < 2/3) (toggled_visibility t)"
proof (induction t)
  case (Object3D x cs)
  have "concat (map (toggled_visibility \<circ> traverse (fadeMesh p)) cs)
        = concat (map (map (\<lambda>_. p < 2/3) \<circ> toggled_visibility) cs)"
    using Object3D.IH by (intro arg_cong[where f = concat] map_cong) auto
  then show ?case by (simp add: fadeMesh_fields map_concat)
qed

lemma toggled_visibility_onUpdate2:
  "toggled_visibility (scene (onUpdate2 m p el)) = map (\<lambda>_. p < 2/3) (toggled_visibility (scene el))"
  by (simp add: onUpdate2_def Let_def toggled_visibility_fadeMesh)

text \<open>
  C5. A jump from progress 0 to progress 1 leaves the group in the state it reaches when
  the progress passes through any intermediate values \<open>qs\<close> on the way; more generally
  the state after any sequence of updates is that of its last update alone. The
  visibility of every mesh the handler writes is \<open>progress < 2/3\<close> of the last update,
  hence false after the jump.
\<close>

theorem onUpdate2_jump:
  "fold (onUpdate2 isMobile) (qs @ [1]) (onUpdate2 isMobile 0 el)
     = onUpdate2 isMobile 1 (onUpdate2 isMobile 0 el)
   \<and> fold (onUpdate2 isMobile) (qs @ [progress]) el = onUpdate2 isMobile progress el
   \<and> toggled_visibility (scene (onUpdate2 isMobile progress el))
       = map (\<lambda>_. progress < 2/3) (toggled_visibility (scene el))
   \<and> toggled_visibility (scene (onUpdate2 isMobile 1 (onUpdate2 isMobile 0 el)))
       = map (\<lambda>_. False) (toggled_visibility (scene el))"
  by (simp add: onUpdate2_after_fold toggled_visibility_onUpdate2)

section \<open>Listeners after teardown\<close>

text \<open>
  C6. \<open>TechStack\<close> mounted on a page whose header has two anchors, then torn down: the
  two click listeners are still registered after the cleanup. The cleanup of the resize
  effect of \<open>HammerScene\<close> leaves nothing. A second mount and teardown of \<open>TechStack\<close>
  leaves two more click listeners.
\<close>

theorem TechStack_cleanup_keeps_click:
  "TechStack_cleanup 0 (TechStack_effect 0 [0, 1] [])
     = [(Anchor 0, ''click'', TechStack_onClick 0 0), (Anchor 1, ''click'', TechStack_onClick 0 1)]
   \<and> HammerScene_resize_cleanup 0 (HammerScene_resize_effect 0 []) = []
   \<and> TechStack_cleanup 1 (TechStack_effect 1 [0, 1]
         (TechStack_cleanup 0 (TechStack_effect 0 [0, 1] [])))
     = [(Anchor 0, ''click'', TechStack_onClick 0 0), (Anchor 1, ''click'', TechStack_onClick 0 1),
        (Anchor 0, ''click'', TechStack_onClick 1 0), (Anchor 1, ''click'', TechStack_onClick 1 1)]"
  by (simp add: TechStack_cleanup_def TechStack_effect_def addEventListener_def
      removeEventListener_def HammerScene_resize_cleanup_def HammerScene_resize_effect_def)

section \<open>Layout modes and the registered timelines\<close>

text \<open>
  C8, as stated, fails: at a viewport width of 800 pixels \<open>HammerScene\<close> is in the
  compact mode and \<open>TechStack\<close> is not.
\<close>

theorem layout_threshold_counterexample:
  "HammerScene_isMobile 800 \<and> \<not> TechStack_isMobile 800"
  by (simp add: HammerScene_isMobile_def TechStack_isMobile_def)

lemma HammerScene_resize_last:
  "fold HammerScene_resize (ws @ [w]) b = HammerScene_isMobile w"
  by (simp add: HammerScene_resize_def HammerScene_isMobile_def)

lemma TechStack_resize_last:
  "fold TechStack_resize (ws @ [w]) b = TechStack_isMobile w"
  by (simp add: TechStack_resize_def TechStack_isMobile_def)

text \<open>
  C8, amended. There are four layout booleans, each a comparison of one measured width
  with a threshold of its own. \<open>HammerScene\<close> is compact below 1024 pixels and
  \<open>TechStack\<close> below 768 pixels, and each re-reads the width once per resize event: after
  any resize events the boolean is that of the width at the last one. The timeline
  functions take the wide branch above 1024 pixels, at the time they are called, and the
  timelines they register depend on the width through that comparison alone. These three
  agree below 768 pixels (compact) and above 1024 pixels (wide). \<open>HammerModel\<close> is
  compact when the three.js viewport is less than 5 units wide, and its scroll handler
  depends on that width through this comparison alone.
\<close>

theorem layout_modes:
  "HammerScene_isMobile innerWidth = (innerWidth < 1024)
   \<and> TechStack_isMobile innerWidth = (innerWidth < 768)
   \<and> HammerModel_isMobile viewport_width = (viewport_width < 5)
   \<and> fold HammerScene_resize (ws @ [innerWidth]) b = HammerScene_isMobile innerWidth
   \<and> fold TechStack_resize (ws @ [innerWidth]) b = TechStack_isMobile innerWidth
   \<and> (innerWidth < 768 \<longrightarrow>
      HammerScene_isMobile innerWidth \<and> TechStack_isMobile innerWidth \<and> \<not> innerWidth > 1024)
   \<and> (innerWidth > 1024 \<longrightarrow>
      \<not> HammerScene_isMobile innerWidth \<and> \<not> TechStack_isMobile innerWidth)
   \<and> ((innerWidth > 1024) = (innerWidth' > 1024) \<longrightarrow>
      setPageScrollAnimations innerWidth reg = setPageScrollAnimations innerWidth' reg
      \<and> setAllTimeline innerWidth reg = setAllTimeline innerWidth' reg)
   \<and> (HammerModel_isMobile viewport_width = HammerModel_isMobile viewport_width' \<longrightarrow>
      HammerModel_onUpdate viewport_width progress el
        = HammerModel_onUpdate viewport_width' progress el)"
proof -
  have tl: "(innerWidth > 1024) = (innerWidth' > 1024) \<longrightarrow>
      setPageScrollAnimations innerWidth reg = setPageScrollAnimations innerWidth' reg
      \<and> setAllTimeline innerWidth reg = setAllTimeline innerWidth' reg"
    by (simp add: setPageScrollAnimations_def setAllTimeline_def)
  have hm: "HammerModel_isMobile viewport_width = HammerModel_isMobile viewport_width' \<longrightarrow>
      HammerModel_onUpdate viewport_width progress el
        = HammerModel_onUpdate viewport_width' progress el"
    by (simp add: HammerModel_onUpdate_def)
  have th: "HammerScene_isMobile innerWidth = (innerWidth < 1024)"
    "TechStack_isMobile innerWidth = (innerWidth < 768)"
    "HammerModel_isMobile viewport_width = (viewport_width < 5)"
    by (simp_all add: HammerScene_isMobile_def TechStack_isMobile_def HammerModel_isMobile_def)
  have ag: "innerWidth < 768 \<longrightarrow>
      HammerScene_isMobile innerWidth \<and> TechStack_isMobile innerWidth \<and> \<not> innerWidth > 1024"
    "innerWidth > 1024 \<longrightarrow>
      \<not> HammerScene_isMobile innerWidth \<and> \<not> TechStack_isMobile innerWidth"
    by (simp_all add: HammerScene_isMobile_def TechStack_isMobile_def)
  from th ag tl hm HammerScene_resize_last [of ws innerWidth b]
    TechStack_resize_last [of ws innerWidth b]
  show ?thesis by blast
qed

theorem layout_modes_witness:
  "(500::int) < 768 \<and> HammerScene_isMobile 500 \<and> TechStack_isMobile 500
   \<and> fold HammerScene_resize [1440, 500] False = True
   \<and> setPageScrollAnimations 500 [] = setPageScrollAnimations 600 []
   \<and> HammerModel_isMobile 4 = HammerModel_isMobile 3
   \<and> HammerModel_onUpdate 4 (1/2) desktop_group = HammerModel_onUpdate 3 (1/2) desktop_group
   \<and> (1440::int) > 1024 \<and> \<not> HammerScene_isMobile 1440 \<and> \<not> TechStack_isMobile 1440
   \<and> fold TechStack_resize [500, 1440] True = False
   \<and> setAllTimeline 1440 [] = setAllTimeline 1500 []
   \<and> HammerModel_isMobile 6 = HammerModel_isMobile 7
   \<and> HammerModel_onUpdate 6 (1/2) desktop_group = HammerModel_onUpdate 7 (1/2) desktop_group"
  using layout_modes [of 500 4 "[1440]" False 600 "[]" 3 "1/2" desktop_group]
    layout_modes [of 1440 6 "[500]" True 1500 "[]" 7 "1/2" desktop_group]
  by (simp add: HammerModel_isMobile_def)

section \<open>The registry after the mount effect\<close>

lemma ids_unique_nth:
  assumes "distinct (List.map_filter f xs)" "j < length xs" "k < length xs"
    "f (xs ! j) = Some a" "f (xs ! k) = Some a"
  shows "j = k"
  using assms
proof (induction xs arbitrary: j k)
  case Nil
  then show ?case by simp
next
  case (Cons x xs)
  have mem: "a \<in> set (List.map_filter f xs)" if "i < length xs" "f (xs ! i) = Some a" for i
  proof -
    have "xs ! i \<in> set xs" using that(1) by simp
    with that(2) show ?thesis
      by (force simp: List.map_filter_def image_iff)
  qed
  show ?case
  proof (cases j)
    case 0
    show ?thesis
    proof (cases k)
      case 0
      with \<open>j = 0\<close> show ?thesis by simp
    next
      case (Suc k')
      with Cons.prems \<open>j = 0\<close> mem[of k'] show ?thesis
        by (auto simp: map_filter_simps)
    qed
  next
    case (Suc j')
    show ?thesis
    proof (cases k)
      case 0
      with Cons.prems Suc mem[of j'] show ?thesis
        by (auto simp: map_filter_simps)
    next
      case (Suc k')
      have "distinct (List.map_filter f xs)"
        using Cons.prems(1) by (auto simp: map_filter_simps split: option.splits)
      with Cons.IH[of j' k'] Cons.prems Suc \<open>j = Suc j'\<close> show ?thesis by simp
    qed
  qed
qed

lemma find_Some_holds: "find P xs = Some x \<Longrightarrow> P x \<and> x \<in> set xs"
  by (auto simp: find_Some_iff)

lemma getById_iff:
  assumes "distinct (List.map_filter st_id reg)" "k < length reg"
  shows "(Some k = getById i reg) = (st_id (reg ! k) = Some i)"
proof
  assume "Some k = getById i reg"
  then obtain t where f: "find (\<lambda>(k, t). st_id t = Some i) (rev (zip [0..<length reg] reg)) = Some (k, t)"
    by (cases "find (\<lambda>(k, t). st_id t = Some i) (rev (zip [0..<length reg] reg))")
      (auto simp: getById_def)
  from find_Some_holds[OF f] show "st_id (reg ! k) = Some i"
    by (auto simp: set_zip)
next
  assume a: "st_id (reg ! k) = Some i"
  let ?zs = "rev (zip [0..<length reg] reg)"
  have "(k, reg ! k) \<in> set ?zs"
    using assms(2) by (auto simp: set_zip intro!: exI[of _ k])
  then have "find (\<lambda>(k, t). st_id t = Some i) ?zs \<noteq> None"
    using a by (auto simp: find_None_iff)
  then obtain k' t' where f: "find (\<lambda>(k, t). st_id t = Some i) ?zs = Some (k', t')"
    by auto
  from find_Some_holds[OF f] have "k' < length reg" "t' = reg ! k'" "st_id t' = Some i"
    by (auto simp: set_zip)
  with ids_unique_nth[OF assms(1) this(1) assms(2), of i] a have "k' = k" by simp
  with f show "Some k = getById i reg" by (simp add: getById_def)
qed

lemma kept_triggers:
  assumes "distinct (List.map_filter st_id reg)"
  shows "map snd (filter (\<lambda>(k, t). \<not> (listed t \<and> Some k \<noteq> getById a reg
                                       \<and> Some k \<noteq> getById b reg))
           (zip [0..<length reg] reg))
         = filter (\<lambda>t. \<not> listed t \<or> st_id t = Some a \<or> st_id t = Some b) reg"
proof -
  let ?zs = "zip [0..<length reg] reg"
  have "filter (\<lambda>(k, t). \<not> (listed t \<and> Some k \<noteq> getById a reg \<and> Some k \<noteq> getById b reg)) ?zs
        = filter ((\<lambda>t. \<not> listed t \<or> st_id t = Some a \<or> st_id t = Some b) \<circ> snd) ?zs"
    using getById_iff[OF assms] by (intro filter_cong) (auto simp: set_zip)
  then show ?thesis by (simp add: filter_map[symmetric])
qed

lemma setAllTimeline_append: "setAllTimeline w reg = reg @ setAllTimeline w []"
  by (simp add: setAllTimeline_def Let_def)

lemma setPageScrollAnimations_append:
  "setPageScrollAnimations w reg = reg @ setPageScrollAnimations w []"
  by (simp add: setPageScrollAnimations_def Let_def)

text \<open>
  C10, as stated, fails. Two triggers were created under the id \<open>work\<close>: the effect
  keeps the one created last and destroys the other, a trigger of id \<open>work\<close>.
\<close>

theorem HammerScene_effect_counterexample:
  "st_id (plain_trigger (Some ''work'') ''.work-section'') = Some ''work''
   \<and> plain_trigger (Some ''work'') ''.work-section'' \<in> set twofold_registry
   \<and> map trigger
         (triggers (HammerScene_effect gsap_listed 1440 \<lparr>loading = [], triggers = twofold_registry\<rparr>))
       = [''.work-flex'', ''.landing-section'', ''.career-section'', ''.landing-section'',
          ''.about-section'', ''.whatIDO'']"
  by (simp add: HammerScene_effect_def getById_def twofold_registry_def plain_trigger_def
      gsap_listed_def setAllTimeline_def setPageScrollAnimations_def Let_def upt_conv_Cons)

text \<open>
  C10, amended. When no two registered triggers share an id, the registry after the mount
  effect is: the triggers that \<open>getAll()\<close> does not list and the triggers of ids
  \<open>work\<close> and \<open>hammer\<close>, as they were, then the career timeline, then the
  page-scroll timelines. Every other trigger registered before is gone; when \<open>getAll()\<close>
  lists every registered trigger, only those of ids \<open>work\<close> and \<open>hammer\<close> remain of
  them.
\<close>

theorem HammerScene_effect_triggers:
  assumes "distinct (List.map_filter st_id (triggers pg))"
  shows "triggers (HammerScene_effect listed innerWidth pg) =
           filter (\<lambda>t. \<not> listed t \<or> st_id t = Some ''work'' \<or> st_id t = Some ''hammer'')
             (triggers pg)
           @ setAllTimeline innerWidth [] @ setPageScrollAnimations innerWidth []
         \<and> ((\<forall>t \<in> set (triggers pg). listed t) \<longrightarrow>
            triggers (HammerScene_effect listed innerWidth pg) =
              filter (\<lambda>t. st_id t = Some ''work'' \<or> st_id t = Some ''hammer'') (triggers pg)
              @ setAllTimeline innerWidth [] @ setPageScrollAnimations innerWidth [])"
proof -
  have "triggers (HammerScene_effect listed innerWidth pg) =
          setPageScrollAnimations innerWidth (setAllTimeline innerWidth
            (map snd (filter (\<lambda>(k, t). \<not> (listed t \<and> Some k \<noteq> getById ''work'' (triggers pg)
                  \<and> Some k \<noteq> getById ''hammer'' (triggers pg)))
               (zip [0..<length (triggers pg)] (triggers pg)))))"
    by (simp add: HammerScene_effect_def Let_def)
  also have "\<dots> = filter (\<lambda>t. \<not> listed t \<or> st_id t = Some ''work'' \<or> st_id t = Some ''hammer'')
             (triggers pg)
           @ setAllTimeline innerWidth [] @ setPageScrollAnimations innerWidth []"
    unfolding kept_triggers[OF assms]
    by (subst setPageScrollAnimations_append, subst setAllTimeline_append) simp
  finally have general: "triggers (HammerScene_effect listed innerWidth pg) =
           filter (\<lambda>t. \<not> listed t \<or> st_id t = Some ''work'' \<or> st_id t = Some ''hammer'')
             (triggers pg)
           @ setAllTimeline innerWidth [] @ setPageScrollAnimations innerWidth []" .
  have "filter (\<lambda>t. \<not> listed t \<or> st_id t = Some ''work'' \<or> st_id t = Some ''hammer'') (triggers pg)
        = filter (\<lambda>t. st_id t = Some ''work'' \<or> st_id t = Some ''hammer'') (triggers pg)"
    if "\<forall>t \<in> set (triggers pg). listed t"
    using that by (intro filter_cong) auto
  with general show ?thesis by simp
qed

theorem HammerScene_effect_triggers_witness:
  "distinct (List.map_filter st_id page_registry)
   \<and> list_all gsap_listed page_registry
   \<and> map trigger
         (triggers (HammerScene_effect gsap_listed 1440 \<lparr>loading = [], triggers = page_registry\<rparr>))
       = [''.work-section'', ''.landing-section'', ''.career-section'', ''.landing-section'',
          ''.about-section'', ''.whatIDO'']"
  using HammerScene_effect_triggers
    [of "\<lparr>loading = [], triggers = page_registry\<rparr>" gsap_listed 1440]
  by (simp add: page_registry_def plain_trigger_def map_filter_simps gsap_listed_def
      setAllTimeline_def setPageScrollAnimations_def Let_def)

text \<open>
  The calls on the loading collaborator over one mount and teardown: \<open>setProgress\<close>,
  \<open>loaded()\<close> at once, \<open>clear()\<close> at teardown.
\<close>

lemma HammerScene_loading_calls:
  "loading (HammerScene_effect_cleanup (HammerScene_effect listed innerWidth pg))
     = loading pg @ [SetProgress, Loaded, Clear]"
  by (simp add: HammerScene_effect_cleanup_def HammerScene_effect_def Let_def)

end
